theory Spec2Isabelle
  imports Main "HOL-Library.Sublist"
begin

section \<open>JavaScript values used by the backend\<close>

text \<open>
  The repository gives the backend's code as listings in its documentation
  (the backend README, \<^verbatim>\<open>ERROR-HANDLING-EXPLAINED.md\<close>, \<^verbatim>\<open>AUTHENTICATION_FLOW.md\<close>);
  each definition below follows the listing quoted before it.

  The backend is an Express application. Its middlewares test values for
  truthiness (\<^verbatim>\<open>if (req.cookies.token)\<close>, \<^verbatim>\<open>err.statusCode || 500\<close>): an absent
  property is \<^verbatim>\<open>undefined\<close> (here \<open>None\<close>), and the empty string and the
  number 0 are falsy as well.
\<close>

definition truthy :: "string option \<Rightarrow> bool" where
  "truthy v = (case v of None \<Rightarrow> False | Some s \<Rightarrow> s \<noteq> [])"

definition truthy_num :: "int option \<Rightarrow> bool" where
  "truthy_num v = (case v of None \<Rightarrow> False | Some n \<Rightarrow> n \<noteq> 0)"

text \<open>\<^verbatim>\<open>s.startsWith(p)\<close>.\<close>

definition startsWith :: "string \<Rightarrow> string \<Rightarrow> bool" where
  "startsWith s p = (take (length p) s = p)"

text \<open>
  \<^verbatim>\<open>s.split(' ')\<close>: the pieces between single separator characters; a string
  without the separator is one piece, and the empty string gives one empty piece.
\<close>

fun split :: "char \<Rightarrow> string \<Rightarrow> string list" where
  "split c [] = [[]]"
| "split c (x # xs) =
     (if x = c then [] # split c xs
      else (case split c xs of p # ps \<Rightarrow> (x # p) # ps | [] \<Rightarrow> [[x]]))"

text \<open>\<^verbatim>\<open>xs[i]\<close>: \<^verbatim>\<open>undefined\<close> out of range.\<close>

definition at_index :: "'a list \<Rightarrow> nat \<Rightarrow> 'a option" where
  "at_index xs i = (if i < length xs then Some (xs ! i) else None)"

text \<open>
  The template literal \<^verbatim>\<open>`${n}`\<close> of an integral number: its decimal digits,
  after a minus sign when it is negative.
\<close>

definition digit_char :: "nat \<Rightarrow> char" where
  "digit_char d = ''0123456789'' ! (d mod 10)"

fun digits :: "nat \<Rightarrow> string" where
  "digits n = (if n < 10 then [digit_char n] else digits (n div 10) @ [digit_char n])"

definition toString :: "int \<Rightarrow> string" where
  "toString n = (if n < 0 then CHR ''-'' # digits (nat (- n)) else digits (nat n))"

section \<open>Errors\<close>

text \<open>
  An error object as the central handler reads it. Every error has a \<open>name\<close> and a
  \<open>message\<close>; \<open>statusCode\<close>, \<open>status\<close> and \<open>isOperational\<close> are set by
  \<^verbatim>\<open>AppError\<close> only (\<open>isOperational\<close> is \<open>False\<close> where the property is absent);
  \<open>code\<close>, \<open>keyPattern\<close> and \<open>keyValue\<close> come with the store's duplicate-key error,
  \<open>path\<close> and \<open>val\<close> with its cast error, \<open>errors\<close> (field, message) with its
  validation error. The stack trace is not modelled.
\<close>

record js_error =
  name :: string
  message :: string
  statusCode :: "int option"
  status :: "string option"
  isOperational :: bool
  code :: "int option"
  keyPattern :: "string list"
  keyValue :: "(string \<times> string) list"
  path :: string
  val :: string
  errors :: "(string \<times> string) list"

text \<open>\<^verbatim>\<open>new Error(message)\<close>: the native error, none of the extra properties.\<close>

definition Error :: "string \<Rightarrow> js_error" where
  "Error msg = \<lparr>name = ''Error'', message = msg, statusCode = None, status = None,
     isOperational = False, code = None, keyPattern = [], keyValue = [],
     path = [], val = [], errors = []\<rparr>"

text \<open>
  \<^verbatim>\<open>
  export class AppError extends Error {
    constructor(message, statusCode) {
      super(message);
      this.statusCode = statusCode;
      this.status = `${statusCode}`.startsWith('4') ? 'fail' : 'error';
      this.isOperational = true;
      Error.captureStackTrace(this, this.constructor);
    }
  }
  \<close>
\<close>

definition AppError :: "string \<Rightarrow> int \<Rightarrow> js_error" where
  "AppError msg sc = (Error msg)\<lparr>statusCode := Some sc,
     status := Some (if startsWith (toString sc) ''4'' then ''fail'' else ''error''),
     isOperational := True\<rparr>"

text \<open>The helpers of the central handler, each building an \<^verbatim>\<open>AppError\<close>.\<close>

definition handleCastErrorDB :: "js_error \<Rightarrow> js_error" where
  "handleCastErrorDB err = AppError (''Invalid '' @ path err @ '': '' @ val err) 400"

text \<open>
  \<^verbatim>\<open>
  const handleDuplicateFieldsDB = (err) => {
    const field = Object.keys(err.keyPattern)[0];
    const value = err.keyValue[field];
    const message = `Duplicate field value: ${field} = "${value}". Please use another value`;
    return new AppError(message, 400);
  };
  \<close>
  A missing key or value prints as \<^verbatim>\<open>undefined\<close>.
\<close>

definition handleDuplicateFieldsDB :: "js_error \<Rightarrow> js_error" where
  "handleDuplicateFieldsDB err =
     (let field = (case at_index (keyPattern err) 0 of None \<Rightarrow> ''undefined'' | Some k \<Rightarrow> k);
          value = (case map_of (keyValue err) field of None \<Rightarrow> ''undefined'' | Some v \<Rightarrow> v);
          msg = ''Duplicate field value: '' @ field @ '' = '' @ [CHR 0x22] @ value @ [CHR 0x22]
                @ ''. Please use another value''
      in AppError msg 400)"

fun join :: "string \<Rightarrow> string list \<Rightarrow> string" where
  "join sep [] = []"
| "join sep [x] = x"
| "join sep (x # y # ys) = x @ sep @ join sep (y # ys)"

definition handleValidationErrorDB :: "js_error \<Rightarrow> js_error" where
  "handleValidationErrorDB err =
     AppError (''Invalid input data. '' @ join ''. '' (map snd (errors err))) 400"

definition handleJWTError :: js_error where
  "handleJWTError = AppError ''Invalid token. Please log in again'' 401"

definition handleJWTExpiredError :: js_error where
  "handleJWTExpiredError = AppError ''Token expired. Please log in again'' 401"

section \<open>Configuration and responses\<close>

text \<open>
  The environment variables the backend reads. \<open>JWT_EXPIRES_IN\<close> is a duration
  string such as \<^verbatim>\<open>'7d'\<close> or \<^verbatim>\<open>'24h'\<close>, held here in parsed form;
  \<open>JWT_COOKIE_EXPIRES_IN\<close> is a number of days, \<open>None\<close> when the variable is unset
  or not a number.
\<close>

datatype duration = Seconds nat | Minutes nat | Hours nat | Days nat

fun duration_seconds :: "duration \<Rightarrow> nat" where
  "duration_seconds (Seconds n) = n"
| "duration_seconds (Minutes n) = n * 60"
| "duration_seconds (Hours n) = n * 60 * 60"
| "duration_seconds (Days n) = n * 24 * 60 * 60"

record env =
  NODE_ENV :: "string option"
  JWT_SECRET :: "string option"
  JWT_EXPIRES_IN :: "duration option"
  JWT_COOKIE_EXPIRES_IN :: "nat option"
  CORS_ORIGIN :: "string option"

record user =
  user_id :: string
  username :: string
  email :: string
  password :: string
  isActive :: bool

text \<open>
  A cookie as \<^verbatim>\<open>res.cookie(name, value, options)\<close> sets it; \<open>expires\<close> in
  milliseconds since the epoch, \<open>None\<close> for an invalid date.
\<close>

record cookie =
  cookie_name :: string
  cookie_value :: string
  expires :: "nat option"
  httpOnly :: bool
  secure :: bool
  sameSite :: string

text \<open>
  A response: the HTTP status, the fields of the JSON body that the handlers set,
  and the cookie.
\<close>

record response =
  http_status :: int
  json_status :: string
  json_message :: "string option"
  json_error :: "js_error option"
  json_token :: "string option"
  json_user :: "user option"
  set_cookie :: "cookie option"

definition json :: "int \<Rightarrow> string \<Rightarrow> response" where
  "json sc st = \<lparr>http_status = sc, json_status = st, json_message = None,
     json_error = None, json_token = None, json_user = None, set_cookie = None\<rparr>"

section \<open>The central error handler\<close>

text \<open>
  \<^verbatim>\<open>
  err.statusCode = err.statusCode || 500;
  err.status = err.status || 'error';
  \<close>
\<close>

definition set_defaults :: "js_error \<Rightarrow> js_error" where
  "set_defaults err = err\<lparr>
     statusCode := Some (if truthy_num (statusCode err) then the (statusCode err) else 500),
     status := Some (if truthy (status err) then the (status err) else ''error'')\<rparr>"

text \<open>
  The two senders, as the README's listing of the handler writes its development
  and production branches:
  \<^verbatim>\<open>
  res.status(err.statusCode).json({
    status: err.status, error: err, message: err.message, stack: err.stack });
  \<close>
  and
  \<^verbatim>\<open>
  if (err.isOperational) {
    res.status(err.statusCode).json({ status: err.status, message: err.message });
  } else {
    res.status(500).json({ status: 'error', message: 'Something went wrong!' });
  }
  \<close>
  Both are called after the defaults are set, so the status code and the status
  are there.
\<close>

definition sendErrorDev :: "js_error \<Rightarrow> response" where
  "sendErrorDev err = (json (the (statusCode err)) (the (status err)))\<lparr>
     json_error := Some err, json_message := Some (message err)\<rparr>"

definition sendErrorProd :: "js_error \<Rightarrow> response" where
  "sendErrorProd err =
     (if isOperational err
      then (json (the (statusCode err)) (the (status err)))\<lparr>json_message := Some (message err)\<rparr>
      else (json 500 ''error'')\<lparr>json_message := Some ''Something went wrong!''\<rparr>)"

text \<open>
  \<^verbatim>\<open>
  export const errorHandler = (err, req, res, next) => {
    err.statusCode = err.statusCode || 500;
    err.status = err.status || 'error';
    if (process.env.NODE_ENV === 'development') {
      sendErrorDev(err, res);
    } else {
      let error = { ...err };
      error.message = err.message;
      if (err.name === 'CastError') error = handleCastErrorDB(err);
      if (err.code === 11000) error = handleDuplicateFieldsDB(err);
      if (err.name === 'ValidationError') error = handleValidationErrorDB(err);
      if (err.name === 'JsonWebTokenError') error = handleJWTError();
      if (err.name === 'TokenExpiredError') error = handleJWTExpiredError();
      sendErrorProd(error, res);
    }
  };
  \<close>
  The tests are a sequence of \<^verbatim>\<open>if\<close>s, not a chain: a later match replaces an
  earlier one. This is the full listing of \<^verbatim>\<open>ERROR-HANDLING-EXPLAINED.md\<close>; the
  README's shorter listing leaves the five translations out.
\<close>

definition translate :: "js_error \<Rightarrow> js_error" where
  "translate err =
     (let error = err;
          error = (if name err = ''CastError'' then handleCastErrorDB err else error);
          error = (if code err = Some 11000 then handleDuplicateFieldsDB err else error);
          error = (if name err = ''ValidationError'' then handleValidationErrorDB err else error);
          error = (if name err = ''JsonWebTokenError'' then handleJWTError else error);
          error = (if name err = ''TokenExpiredError'' then handleJWTExpiredError else error)
      in error)"

definition errorHandler :: "env \<Rightarrow> js_error \<Rightarrow> response" where
  "errorHandler e err0 =
     (let err = set_defaults err0
      in if NODE_ENV e = Some ''development'' then sendErrorDev err
         else sendErrorProd (translate err))"

section \<open>Requests, the credential store and the token library\<close>

text \<open>
  The parts of a request the middlewares read: the method, the \<^verbatim>\<open>token\<close> cookie
  (\<^verbatim>\<open>req.cookies.token\<close>), the \<^verbatim>\<open>Authorization\<close>, \<^verbatim>\<open>Origin\<close> and
  \<^verbatim>\<open>Referer\<close> headers, and the fields of the JSON body.
\<close>

record request =
  req_method :: string
  cookies_token :: "string option"
  authorization :: "string option"
  origin :: "string option"
  referer :: "string option"
  body_username :: string
  body_email :: string
  body_password :: string

text \<open>
  The credential store is the collection of user documents. The server keeps no
  other state: there is no table of issued or revoked tokens.
\<close>

type_synonym store = "user list"

definition findById :: "store \<Rightarrow> string \<Rightarrow> user option" where
  "findById st i = find (\<lambda>u. user_id u = i) st"

definition findOne_email :: "store \<Rightarrow> string \<Rightarrow> user option" where
  "findOne_email st e = find (\<lambda>u. email u = e) st"

text \<open>
  What a guarded request did on its way, in order: \<open>Verify_token\<close> for a call of
  the token verifier on a token, \<open>Read_user\<close> for a read of the store by identifier.
\<close>

datatype event = Verify_token string | Read_user string

text \<open>
  The payload \<^verbatim>\<open>jwt.verify\<close> returns, \<^verbatim>\<open>{ id, iat, exp }\<close> (times in seconds), and
  the two errors it throws: \<^verbatim>\<open>JsonWebTokenError\<close> for a malformed token or a bad
  signature, \<^verbatim>\<open>TokenExpiredError\<close> for a token past its expiry.
\<close>

record jwt_payload =
  payload_id :: string
  iat :: nat
  exp :: nat

datatype jwt_failure = JsonWebTokenError string | TokenExpiredError

fun jwt_error :: "jwt_failure \<Rightarrow> js_error" where
  "jwt_error (JsonWebTokenError msg) = (Error msg)\<lparr>name := ''JsonWebTokenError''\<rparr>"
| "jwt_error TokenExpiredError = (Error ''jwt expired'')\<lparr>name := ''TokenExpiredError''\<rparr>"

text \<open>
  The library is a parameter of the model: \<^verbatim>\<open>jwt.verify(token, secret)\<close> read at
  a clock (milliseconds), and the encoding half of \<^verbatim>\<open>jwt.sign\<close>. The theorems hold
  for every verifier and every encoder.
\<close>

type_synonym verifier = "string \<Rightarrow> string option \<Rightarrow> nat \<Rightarrow> jwt_failure + jwt_payload"

type_synonym encoder = "jwt_payload \<Rightarrow> string option \<Rightarrow> string"

text \<open>
  A verifier for concrete runs: it knows the tokens that were issued, rejects every
  other string, and rejects an issued token from its expiry second on.
\<close>

definition table_verify :: "(string \<times> jwt_payload) list \<Rightarrow> verifier" where
  "table_verify issued tok secret now =
     (case map_of issued tok of
        None \<Rightarrow> Inl (JsonWebTokenError ''invalid signature'')
      | Some p \<Rightarrow> if exp p \<le> now div 1000 then Inl TokenExpiredError else Inr p)"

section \<open>The session guard\<close>

text \<open>
  \<^verbatim>\<open>
  if (req.cookies.token) {
    token = req.cookies.token;
  } else if (
    req.headers.authorization &&
    req.headers.authorization.startsWith('Bearer')
  ) {
    token = req.headers.authorization.split(' ')[1];
  }
  \<close>
\<close>

definition extract_token :: "request \<Rightarrow> string option" where
  "extract_token req =
     (if truthy (cookies_token req) then cookies_token req
      else if truthy (authorization req) \<and> startsWith (the (authorization req)) ''Bearer''
      then at_index (split CHR '' '' (the (authorization req))) 1
      else None)"

text \<open>
  \<^verbatim>\<open>
  if (!token) throw new AppError('You are not logged in', 401);
  const decoded = jwt.verify(token, process.env.JWT_SECRET);
  const user = await User.findById(decoded.id);
  if (!user) throw new AppError('User no longer exists', 401);
  if (!user.isActive) throw new AppError('User account is deactivated', 401);
  req.user = user;
  next();
  \<close>
  The result is the thrown error or the user attached to the request, with the
  trace of what was called.
\<close>

definition protect ::
  "env \<Rightarrow> verifier \<Rightarrow> nat \<Rightarrow> store \<Rightarrow> request \<Rightarrow> (js_error + user) \<times> event list" where
  "protect e verify now st req =
     (let token = extract_token req
      in if \<not> truthy token then (Inl (AppError ''You are not logged in'' 401), [])
         else (case verify (the token) (JWT_SECRET e) now of
                 Inl f \<Rightarrow> (Inl (jwt_error f), [Verify_token (the token)])
               | Inr decoded \<Rightarrow>
                   (let trace = [Verify_token (the token), Read_user (payload_id decoded)]
                    in case findById st (payload_id decoded) of
                         None \<Rightarrow> (Inl (AppError ''User no longer exists'' 401), trace)
                       | Some u \<Rightarrow>
                           if \<not> isActive u
                           then (Inl (AppError ''User account is deactivated'' 401), trace)
                           else (Inr u, trace))))"

text \<open>
  \<^verbatim>\<open>asyncHandler\<close> passes a thrown error to \<^verbatim>\<open>next\<close>, and Express hands it to the
  central handler: the response of a handler that threw is the error handler's.
\<close>

definition respond :: "env \<Rightarrow> js_error + response \<Rightarrow> response" where
  "respond e r = (case r of Inl err \<Rightarrow> errorHandler e err | Inr res \<Rightarrow> res)"

section \<open>The origin guard\<close>

datatype outcome = Next | Send response

text \<open>
  \<^verbatim>\<open>
  if (process.env.NODE_ENV !== 'production' ||
      ['GET', 'HEAD', 'OPTIONS'].includes(req.method)) return next();
  const origin = req.get('origin');
  const referer = req.get('referer');
  const allowedOrigin = process.env.CORS_ORIGIN;
  if (origin && origin !== allowedOrigin)
    return res.status(403).json({ status: 'error', message: 'CSRF validation failed' });
  if (referer && !referer.startsWith(allowedOrigin))
    return res.status(403).json({ status: 'error', message: 'CSRF validation failed' });
  next();
  \<close>
  \<^verbatim>\<open>startsWith\<close> turns an unset \<^verbatim>\<open>allowedOrigin\<close> into the text \<^verbatim>\<open>undefined\<close>.
\<close>

definition csrf_failed :: response where
  "csrf_failed = (json 403 ''error'')\<lparr>json_message := Some ''CSRF validation failed''\<rparr>"

definition csrfProtection :: "env \<Rightarrow> request \<Rightarrow> outcome" where
  "csrfProtection e req =
     (if NODE_ENV e \<noteq> Some ''production'' \<or> req_method req \<in> set [''GET'', ''HEAD'', ''OPTIONS'']
      then Next
      else if truthy (origin req) \<and> origin req \<noteq> CORS_ORIGIN e then Send csrf_failed
      else if truthy (referer req) \<and>
              \<not> startsWith (the (referer req))
                  (case CORS_ORIGIN e of None \<Rightarrow> ''undefined'' | Some a \<Rightarrow> a)
      then Send csrf_failed
      else Next)"

section \<open>Issuing and transporting the token\<close>

text \<open>
  \<^verbatim>\<open>
  const token = jwt.sign({ id: userId }, process.env.JWT_SECRET, {
    expiresIn: process.env.JWT_EXPIRES_IN || '7d'
  });
  \<close>
  The library stamps the payload with the issuing second and adds the span to it.
  It throws \<^verbatim>\<open>Error('secretOrPrivateKey must have a value')\<close> when the secret is
  unset or empty.
\<close>

definition token_ttl :: "env \<Rightarrow> nat" where
  "token_ttl e = duration_seconds (case JWT_EXPIRES_IN e of None \<Rightarrow> Days 7 | Some d \<Rightarrow> d)"

definition token_claims :: "env \<Rightarrow> nat \<Rightarrow> string \<Rightarrow> jwt_payload" where
  "token_claims e now uid =
     \<lparr>payload_id = uid, iat = now div 1000, exp = now div 1000 + token_ttl e\<rparr>"

definition signToken :: "encoder \<Rightarrow> env \<Rightarrow> nat \<Rightarrow> string \<Rightarrow> js_error + string" where
  "signToken encode e now uid =
     (if \<not> truthy (JWT_SECRET e) then Inl (Error ''secretOrPrivateKey must have a value'')
      else Inr (encode (token_claims e now uid) (JWT_SECRET e)))"

text \<open>
  \<^verbatim>\<open>
  export const createSendToken = (user, statusCode, res) => {
    const token = signToken(user._id);
    const cookieOptions = {
      expires: new Date(
        Date.now() + process.env.JWT_COOKIE_EXPIRES_IN * 24 * 60 * 60 * 1000
      ),
      httpOnly: true,
      secure: process.env.NODE_ENV === 'production',
      sameSite: process.env.NODE_ENV === 'production' ? 'none' : 'strict',
    };
    res.cookie('token', token, cookieOptions);
    res.status(statusCode).json({ status: 'success', token, data: { user } });
  };
  \<close>
  The clock is read twice, by \<^verbatim>\<open>jwt.sign\<close> (\<open>t_sign\<close>) and for the cookie
  (\<open>t_cookie\<close>). With \<open>JWT_COOKIE_EXPIRES_IN\<close> unset or not a number the product
  is \<^verbatim>\<open>NaN\<close> and the date invalid, and \<^verbatim>\<open>res.cookie\<close> throws
  \<^verbatim>\<open>TypeError('option expires is invalid')\<close>. Either error leaves the function
  before anything is sent.
\<close>

definition cookie_expires :: "env \<Rightarrow> nat \<Rightarrow> nat option" where
  "cookie_expires e t_cookie =
     (case JWT_COOKIE_EXPIRES_IN e of
        None \<Rightarrow> None
      | Some days \<Rightarrow> Some (t_cookie + days * 24 * 60 * 60 * 1000))"

definition cookieOptions :: "env \<Rightarrow> string \<Rightarrow> nat option \<Rightarrow> cookie" where
  "cookieOptions e v ex = \<lparr>cookie_name = ''token'', cookie_value = v, expires = ex,
     httpOnly = True, secure = (NODE_ENV e = Some ''production''),
     sameSite = (if NODE_ENV e = Some ''production'' then ''none'' else ''strict'')\<rparr>"

definition createSendToken ::
  "encoder \<Rightarrow> env \<Rightarrow> nat \<Rightarrow> nat \<Rightarrow> user \<Rightarrow> int \<Rightarrow> js_error + response" where
  "createSendToken encode e t_sign t_cookie u sc =
     (case signToken encode e t_sign (user_id u) of
        Inl err \<Rightarrow> Inl err
      | Inr token \<Rightarrow>
          (case cookie_expires e t_cookie of
             None \<Rightarrow> Inl ((Error ''option expires is invalid'')\<lparr>name := ''TypeError''\<rparr>)
           | Some x \<Rightarrow>
               Inr ((json sc ''success'')\<lparr>json_token := Some token, json_user := Some u,
                      set_cookie := Some (cookieOptions e token (Some x))\<rparr>)))"

section \<open>The operations\<close>

text \<open>
  \<^verbatim>\<open>
  export const login = asyncHandler(async (req, res) => {
    const { email, password } = req.body;
    const user = await User.findOne({ email }).select('+password');
    if (!user || !(await user.correctPassword(password, user.password))) {
      throw new AppError('Incorrect email or password', 401);
    }
    // ... resto del codigo
  });
  \<close>
  \<^verbatim>\<open>correctPassword\<close> is \<^verbatim>\<open>bcrypt.compare\<close>, a parameter here (\<open>compare\<close>), and so
  is the rest of the handler, which the listing leaves out (\<open>rest\<close>, from the
  matched user to the error it throws or the response it sends).
\<close>

definition login ::
  "(string \<Rightarrow> string \<Rightarrow> bool) \<Rightarrow> (user \<Rightarrow> js_error + response) \<Rightarrow> store \<Rightarrow> request
     \<Rightarrow> js_error + response" where
  "login compare rest st req =
     (case findOne_email st (body_email req) of
        None \<Rightarrow> Inl (AppError ''Incorrect email or password'' 401)
      | Some u \<Rightarrow>
          if \<not> compare (body_password req) (password u)
          then Inl (AppError ''Incorrect email or password'' 401)
          else rest u)"


text \<open>
  Modelled from the spec: the store's insert (\<^verbatim>\<open>User.create\<close> of the Mongoose
  model, whose unique indexes are not in the sources). "username and email are
  unique across all records", enforced "by that store itself": an insert whose
  username or email is taken is refused and stores nothing; otherwise the document
  is stored with the hashed password and the active flag set. The refusal is the
  error \<^verbatim>\<open>ERROR-HANDLING-EXPLAINED.md\<close> describes for a duplicate email:
  \<^verbatim>\<open>
  // { code: 11000, name: 'MongoServerError',
  //   keyPattern: { email: 1 }, keyValue: { email: 'test@test.com' } }
  \<close>
  The hash function and the new identifier are parameters.
\<close>

definition duplicate_key :: "string \<Rightarrow> string \<Rightarrow> js_error" where
  "duplicate_key field v = (Error (''E11000 duplicate key error''))\<lparr>
     name := ''MongoServerError'', code := Some 11000,
     keyPattern := [field], keyValue := [(field, v)]\<rparr>"

definition User_create ::
  "(string \<Rightarrow> string) \<Rightarrow> string \<Rightarrow> store \<Rightarrow> request \<Rightarrow> js_error + (user \<times> store)" where
  "User_create hash new_id st req =
     (if body_username req \<in> set (map username st)
      then Inl (duplicate_key ''username'' (body_username req))
      else if body_email req \<in> set (map email st)
      then Inl (duplicate_key ''email'' (body_email req))
      else (let u = \<lparr>user_id = new_id, username = body_username req,
                      email = body_email req, password = hash (body_password req),
                      isActive = True\<rparr>
            in Inr (u, st @ [u])))"

text \<open>
  The register controller, on a body that passed the validators of its route. The
  README lists it as
  \<^verbatim>\<open>
  export const register = asyncHandler(async (req, res, next) => {
    const user = await User.create(req.body);
    res.json({ user });
  });
  \<close>
  and documents its answer as 201 with the token in the body and in the cookie,
  which is \<^verbatim>\<open>createSendToken(user, 201, res)\<close>. An error of the insert or of the
  transport goes to the central handler. The result is the response and the store
  the request leaves.
\<close>

definition register ::
  "(string \<Rightarrow> string) \<Rightarrow> string \<Rightarrow> encoder \<Rightarrow> env \<Rightarrow> nat \<Rightarrow> nat \<Rightarrow> store \<Rightarrow> request
     \<Rightarrow> response \<times> store" where
  "register hash new_id encode e t_sign t_cookie st req =
     (case User_create hash new_id st req of
        Inl err \<Rightarrow> (errorHandler e err, st)
      | Inr (u, st') \<Rightarrow> (respond e (createSendToken encode e t_sign t_cookie u 201), st'))"



text \<open>
  The response of a guarded route whose handler answers 200 with the resolved user
  (\<^verbatim>\<open>router.get('/me', protect, getMe)\<close>).
\<close>

definition getMe :: "user \<Rightarrow> response" where
  "getMe u = (json 200 ''success'')\<lparr>json_user := Some u\<rparr>"

definition me_route :: "env \<Rightarrow> verifier \<Rightarrow> nat \<Rightarrow> store \<Rightarrow> request \<Rightarrow> response" where
  "me_route e verify now st req =
     respond e (map_sum (\<lambda>err. err) getMe (fst (protect e verify now st req)))"

text \<open>
  Deactivation happens outside the application, directly in the store: the active
  flag of the user with the given identifier is cleared.
\<close>

definition deactivate :: "string \<Rightarrow> store \<Rightarrow> store" where
  "deactivate i st = map (\<lambda>u. if user_id u = i then u\<lparr>isActive := False\<rparr> else u) st"

section \<open>A concrete deployment for the worked examples\<close>

definition prod_env :: env where
  "prod_env = \<lparr>NODE_ENV = Some ''production'', JWT_SECRET = Some ''s3cret'',
     JWT_EXPIRES_IN = Some (Days 7), JWT_COOKIE_EXPIRES_IN = Some 7,
     CORS_ORIGIN = Some ''https://miapp.com''\<rparr>"

definition dev_env :: env where
  "dev_env = prod_env\<lparr>NODE_ENV := Some ''development''\<rparr>"

definition alice :: user where
  "alice = \<lparr>user_id = ''u1'', username = ''alice'', email = ''alice@example.com'',
     password = ''$2a$12$hash'', isActive = True\<rparr>"

text \<open>One token was issued, to alice at second 0, valid for seven days.\<close>

definition issued :: "(string \<times> jwt_payload) list" where
  "issued = [(''tok.u1.sig'', \<lparr>payload_id = ''u1'', iat = 0, exp = 604800\<rparr>)]"

definition blank_request :: request where
  "blank_request = \<lparr>req_method = ''GET'', cookies_token = None, authorization = None,
     origin = None, referer = None, body_username = [], body_email = [],
     body_password = []\<rparr>"

definition cookie_request :: "string \<Rightarrow> request" where
  "cookie_request tok = blank_request\<lparr>cookies_token := Some tok\<rparr>"

text \<open>The stored hash of the examples matches one password only.\<close>

definition example_compare :: "string \<Rightarrow> string \<Rightarrow> bool" where
  "example_compare candidate hashed = (candidate = ''Secur3Pass!'' \<and> hashed = ''$2a$12$hash'')"

text \<open>A login that goes on to send the token, for the examples.\<close>

definition example_rest :: "user \<Rightarrow> js_error + response" where
  "example_rest u = createSendToken (\<lambda>p s. ''tok.u1.sig'') prod_env 1000 1000 u 200"

section \<open>Basic facts\<close>

declare digits.simps [simp del]

lemma below_ten:
  "(k::nat) < 10 \<Longrightarrow>
     k = 0 \<or> k = 1 \<or> k = 2 \<or> k = 3 \<or> k = 4 \<or> k = 5 \<or> k = 6 \<or> k = 7 \<or> k = 8 \<or> k = 9"
  by arith

lemma nth_digit_4: "k < 10 \<Longrightarrow> (''0123456789'' ! k = CHR ''4'') = (k = 4)"
  by (drule below_ten) (elim disjE; simp)

lemma digit_char_4: "digit_char d = CHR ''4'' \<longleftrightarrow> d mod 10 = 4"
  unfolding digit_char_def by (rule nth_digit_4) simp

lemma digits_3:
  assumes "100 \<le> n" "n < 1000"
  shows "digits n = [digit_char (n div 100), digit_char (n div 10), digit_char n]"
proof -
  have 1: "digits n = digits (n div 10) @ [digit_char n]"
    using assms by (subst digits.simps) simp
  have 2: "digits (n div 10) = digits (n div 10 div 10) @ [digit_char (n div 10)]"
    using assms by (subst digits.simps) simp
  have 3: "digits (n div 10 div 10) = [digit_char (n div 10 div 10)]"
    using assms by (subst digits.simps) simp
  have "n div 10 div 10 = n div 100" by (simp add: div_mult2_eq)
  with 1 2 3 show ?thesis by simp
qed

lemma hundreds:
  "100 \<le> n \<Longrightarrow> n < 1000 \<Longrightarrow> (n div 100 mod 10 = 4) = (400 \<le> n \<and> n < (500::nat))"
  by auto

text \<open>For a three-digit status code the leading digit is 4 exactly on 400..499.\<close>

lemma status_4xx:
  assumes "100 \<le> sc" "sc < 1000"
  shows "startsWith (toString sc) ''4'' \<longleftrightarrow> (400 \<le> sc \<and> sc < 500)"
proof -
  have b: "100 \<le> nat sc" "nat sc < 1000" using assms by auto
  have "\<not> sc < 0" using assms by simp
  then have "toString sc = digits (nat sc)" by (simp only: toString_def if_False)
  then have "startsWith (toString sc) ''4'' \<longleftrightarrow> digit_char (nat sc div 100) = CHR ''4''"
    by (simp add: startsWith_def digits_3[OF b])
  also have "\<dots> \<longleftrightarrow> nat sc div 100 mod 10 = 4" by (rule digit_char_4)
  also have "\<dots> \<longleftrightarrow> (400 \<le> nat sc \<and> nat sc < 500)" by (rule hundreds[OF b])
  also have "\<dots> \<longleftrightarrow> (400 \<le> sc \<and> sc < 500)" using assms by auto
  finally show ?thesis .
qed

lemma AppError_sel [simp]:
  "isOperational (AppError m sc)"
  "statusCode (AppError m sc) = Some sc"
  "message (AppError m sc) = m"
  "name (AppError m sc) = ''Error''"
  "code (AppError m sc) = None"
  "status (AppError m sc) = Some (if startsWith (toString sc) ''4'' then ''fail'' else ''error'')"
  by (simp_all add: AppError_def Error_def)

lemma AppError_status_4xx:
  "400 \<le> sc \<Longrightarrow> sc < 500 \<Longrightarrow> status (AppError m sc) = Some ''fail''"
  using status_4xx[of sc] by simp

lemma set_defaults_AppError: "sc \<noteq> 0 \<Longrightarrow> set_defaults (AppError m sc) = AppError m sc"
  by (simp add: set_defaults_def truthy_num_def truthy_def)

lemma translate_AppError: "translate (AppError m sc) = AppError m sc"
  by (simp add: translate_def)

text \<open>
  An \<^verbatim>\<open>AppError\<close> with a 4xx code reaches the client with its own code, the
  status \<^verbatim>\<open>fail\<close> and its message, in development and in every other mode.
\<close>

lemma errorHandler_AppError_4xx:
  assumes "400 \<le> sc" "sc < 500"
  shows "http_status (errorHandler e (AppError m sc)) = sc"
    and "json_status (errorHandler e (AppError m sc)) = ''fail''"
    and "json_message (errorHandler e (AppError m sc)) = Some m"
    and "set_cookie (errorHandler e (AppError m sc)) = None"
proof -
  have nz: "sc \<noteq> 0" using assms by simp
  have st: "status (AppError m sc) = Some ''fail''" by (rule AppError_status_4xx[OF assms])
  have sc: "statusCode (AppError m sc) = Some sc" by simp
  show "http_status (errorHandler e (AppError m sc)) = sc"
    by (simp only: errorHandler_def Let_def set_defaults_AppError[OF nz] translate_AppError
          sendErrorDev_def sendErrorProd_def sc st)
       (simp add: json_def)
  show "json_status (errorHandler e (AppError m sc)) = ''fail''"
    by (simp only: errorHandler_def Let_def set_defaults_AppError[OF nz] translate_AppError
          sendErrorDev_def sendErrorProd_def sc st)
       (simp add: json_def)
  show "json_message (errorHandler e (AppError m sc)) = Some m"
    by (simp only: errorHandler_def Let_def set_defaults_AppError[OF nz] translate_AppError
          sendErrorDev_def sendErrorProd_def sc st)
       (simp add: json_def)
  show "set_cookie (errorHandler e (AppError m sc)) = None"
    by (simp only: errorHandler_def Let_def set_defaults_AppError[OF nz] translate_AppError
          sendErrorDev_def sendErrorProd_def sc st)
       (simp add: json_def)
qed

section \<open>The error class and the handler's defaults\<close>

text \<open>
  Claim C10. An \<^verbatim>\<open>AppError\<close> built from a message and a status code is
  operational, carries that code and that message, and its status is \<^verbatim>\<open>fail\<close>
  exactly when the decimal text of the code starts with the digit 4 and \<^verbatim>\<open>error\<close>
  otherwise (so \<^verbatim>\<open>fail\<close> on 400..499 among the three-digit codes). The central
  handler gives an error that has no status code the code 500 and one that has no
  status the status \<^verbatim>\<open>error\<close>; in development mode these are the status line and
  the status field of the response.
\<close>

theorem AppError_fields_and_handler_defaults:
  "isOperational (AppError msg sc)
   \<and> statusCode (AppError msg sc) = Some sc
   \<and> message (AppError msg sc) = msg
   \<and> (status (AppError msg sc) = Some ''fail'' \<longleftrightarrow> startsWith (toString sc) ''4'')
   \<and> (status (AppError msg sc) = Some ''error'' \<longleftrightarrow> \<not> startsWith (toString sc) ''4'')
   \<and> (100 \<le> sc \<and> sc < 1000 \<longrightarrow>
        (status (AppError msg sc) = Some ''fail'' \<longleftrightarrow> 400 \<le> sc \<and> sc < 500))
   \<and> (statusCode err = None \<longrightarrow> statusCode (set_defaults err) = Some 500)
   \<and> (status err = None \<longrightarrow> status (set_defaults err) = Some ''error'')
   \<and> (statusCode err = None \<and> status err = None \<and> NODE_ENV e = Some ''development'' \<longrightarrow>
        http_status (errorHandler e err) = 500 \<and> json_status (errorHandler e err) = ''error'')"
proof -
  have three: "100 \<le> sc \<and> sc < 1000 \<longrightarrow>
      (status (AppError msg sc) = Some ''fail'' \<longleftrightarrow> 400 \<le> sc \<and> sc < 500)"
    using status_4xx[of sc] by simp
  have d1: "statusCode err = None \<longrightarrow> statusCode (set_defaults err) = Some 500"
    by (simp add: set_defaults_def truthy_num_def)
  have d2: "status err = None \<longrightarrow> status (set_defaults err) = Some ''error''"
    by (simp add: set_defaults_def truthy_def)
  have d3: "statusCode err = None \<and> status err = None \<and> NODE_ENV e = Some ''development'' \<longrightarrow>
        http_status (errorHandler e err) = 500 \<and> json_status (errorHandler e err) = ''error''"
    by (simp add: errorHandler_def set_defaults_def truthy_num_def truthy_def sendErrorDev_def
          json_def)
  show ?thesis using three d1 d2 d3 by simp
qed

theorem AppError_fields_and_handler_defaults_witness:
  "status (AppError ''User not found'' 404) = Some ''fail''
   \<and> status (AppError ''Database connection failed'' 500) = Some ''error''
   \<and> statusCode (set_defaults (Error ''Something broke'')) = Some 500
   \<and> status (set_defaults (Error ''Something broke'')) = Some ''error''
   \<and> http_status (errorHandler dev_env (Error ''Something broke'')) = 500
   \<and> json_status (errorHandler dev_env (Error ''Something broke'')) = ''error''"
proof -
  note t1 = AppError_fields_and_handler_defaults
              [of "''User not found''" 404 "Error ''Something broke''" dev_env]
  note t2 = AppError_fields_and_handler_defaults
              [of "''Database connection failed''" 500 "Error ''Something broke''" dev_env]
  have e: "statusCode (Error ''Something broke'') = None"
          "status (Error ''Something broke'') = None"
          "NODE_ENV dev_env = Some ''development''"
    by (simp_all add: Error_def dev_env_def)
  have "status (AppError ''User not found'' 404) = Some ''fail''"
    using t1 by (simp del: AppError_sel)
  moreover have "status (AppError ''Database connection failed'' 500) = Some ''error''"
  proof -
    have "(100::int) \<le> 500 \<and> (500::int) < 1000" and "\<not> ((400::int) \<le> 500 \<and> (500::int) < 500)"
      by simp_all
    with t2 show ?thesis by blast
  qed
  moreover have "statusCode (set_defaults (Error ''Something broke'')) = Some 500"
    using t1 e by blast
  moreover have "status (set_defaults (Error ''Something broke'')) = Some ''error''"
    using t1 e by blast
  moreover have "http_status (errorHandler dev_env (Error ''Something broke'')) = 500
      \<and> json_status (errorHandler dev_env (Error ''Something broke'')) = ''error''"
    using t1 e by blast
  ultimately show ?thesis by blast
qed

section \<open>Facts about the session guard\<close>

lemma findById_Some: "findById st i = Some u \<Longrightarrow> user_id u = i \<and> u \<in> set st"
  by (auto simp: findById_def find_Some_iff)

lemma findById_deactivate:
  "findById st i = Some u \<Longrightarrow> findById (deactivate i st) i = Some (u\<lparr>isActive := False\<rparr>)"
  unfolding findById_def deactivate_def
  by (induction st) (auto split: if_splits)

lemma protect_no_token:
  "\<not> truthy (extract_token req) \<Longrightarrow>
     protect e verify now st req = (Inl (AppError ''You are not logged in'' 401), [])"
  by (simp add: protect_def)

lemma protect_verify_failed:
  "extract_token req = Some tok \<Longrightarrow> tok \<noteq> [] \<Longrightarrow> verify tok (JWT_SECRET e) now = Inl f \<Longrightarrow>
     protect e verify now st req = (Inl (jwt_error f), [Verify_token tok])"
  by (simp add: protect_def truthy_def)

lemma protect_verified:
  "extract_token req = Some tok \<Longrightarrow> tok \<noteq> [] \<Longrightarrow> verify tok (JWT_SECRET e) now = Inr p \<Longrightarrow>
     protect e verify now st req =
       ((case findById st (payload_id p) of
           None \<Rightarrow> Inl (AppError ''User no longer exists'' 401)
         | Some u \<Rightarrow> if isActive u then Inr u
                     else Inl (AppError ''User account is deactivated'' 401)),
        [Verify_token tok, Read_user (payload_id p)])"
  by (simp add: protect_def truthy_def Let_def split: option.splits)

lemma protect_accepts_iff:
  "fst (protect e verify now st req) = Inr u \<longleftrightarrow>
     (\<exists>tok p. extract_token req = Some tok \<and> tok \<noteq> [] \<and> verify tok (JWT_SECRET e) now = Inr p
        \<and> findById st (payload_id p) = Some u \<and> isActive u)"
  by (auto simp: protect_def truthy_def Let_def split: option.splits sum.splits if_splits)

lemma me_route_rejects:
  assumes "fst (protect e verify now st req) = Inl (AppError m sc)" "400 \<le> sc" "sc < 500"
  shows "http_status (me_route e verify now st req) = sc"
    and "json_status (me_route e verify now st req) = ''fail''"
    and "json_message (me_route e verify now st req) = Some m"
  using assms errorHandler_AppError_4xx[of sc e m]
  by (simp_all add: me_route_def respond_def)


section \<open>A deactivated account\<close>

text \<open>
  Claim C1, as the code has it. A request whose token passes verification and
  resolves to a stored user with the active flag cleared is rejected by the guard
  with the error \<^verbatim>\<open>User account is deactivated\<close> and the status 401 (not 403),
  which is also the status of the response. This holds for a token that was
  accepted before: once the user is deactivated in the store, the same request, at
  the same clock and with the token untouched, is rejected this way.
\<close>

theorem deactivated_user_rejected_401:
  "(extract_token req = Some tok \<and> tok \<noteq> [] \<and> verify tok (JWT_SECRET e) now = Inr p
      \<and> findById st (payload_id p) = Some u \<and> \<not> isActive u \<longrightarrow>
        fst (protect e verify now st req) = Inl (AppError ''User account is deactivated'' 401)
        \<and> http_status (me_route e verify now st req) = 401
        \<and> json_message (me_route e verify now st req) = Some ''User account is deactivated'')
   \<and> (fst (protect e verify now st req) = Inr u' \<longrightarrow>
        fst (protect e verify now (deactivate (user_id u') st) req)
          = Inl (AppError ''User account is deactivated'' 401)
        \<and> http_status (me_route e verify now (deactivate (user_id u') st) req) = 401
        \<and> json_message (me_route e verify now (deactivate (user_id u') st) req)
            = Some ''User account is deactivated'')"
proof -
  have rejected: "fst (protect e verify now s req) = Inl (AppError ''User account is deactivated'' 401)"
    if "extract_token req = Some tok'" "tok' \<noteq> []" "verify tok' (JWT_SECRET e) now = Inr p'"
       "findById s (payload_id p') = Some v" "\<not> isActive v" for s tok' p' v
    using that by (simp add: protect_verified)
  have response: "http_status (me_route e verify now s req) = 401
      \<and> json_message (me_route e verify now s req) = Some ''User account is deactivated''"
    if "fst (protect e verify now s req) = Inl (AppError ''User account is deactivated'' 401)" for s
    using me_route_rejects[OF that] by simp
  have first: "extract_token req = Some tok \<and> tok \<noteq> [] \<and> verify tok (JWT_SECRET e) now = Inr p
      \<and> findById st (payload_id p) = Some u \<and> \<not> isActive u \<longrightarrow>
        fst (protect e verify now st req) = Inl (AppError ''User account is deactivated'' 401)
        \<and> http_status (me_route e verify now st req) = 401
        \<and> json_message (me_route e verify now st req) = Some ''User account is deactivated''"
    using rejected response by blast
  have second: "fst (protect e verify now (deactivate (user_id u') st) req)
          = Inl (AppError ''User account is deactivated'' 401)
        \<and> http_status (me_route e verify now (deactivate (user_id u') st) req) = 401
        \<and> json_message (me_route e verify now (deactivate (user_id u') st) req)
            = Some ''User account is deactivated''"
    if acc: "fst (protect e verify now st req) = Inr u'"
  proof -
    from acc obtain tok' p' where t: "extract_token req = Some tok'" "tok' \<noteq> []"
        "verify tok' (JWT_SECRET e) now = Inr p'" "findById st (payload_id p') = Some u'"
      unfolding protect_accepts_iff by blast
    from findById_Some[OF t(4)] have i: "user_id u' = payload_id p'" by simp
    have "findById (deactivate (user_id u') st) (payload_id p') = Some (u'\<lparr>isActive := False\<rparr>)"
      using findById_deactivate[OF t(4)] i by simp
    from rejected[OF t(1,2,3) this] response show ?thesis by simp
  qed
  from first second show ?thesis by blast
qed

theorem deactivated_user_rejected_401_witness:
  "fst (protect prod_env (table_verify issued) 1000 [alice] (cookie_request ''tok.u1.sig''))
     = Inr alice
   \<and> fst (protect prod_env (table_verify issued) 1000 (deactivate ''u1'' [alice])
        (cookie_request ''tok.u1.sig''))
     = Inl (AppError ''User account is deactivated'' 401)
   \<and> json_message (me_route prod_env (table_verify issued) 1000 (deactivate ''u1'' [alice])
        (cookie_request ''tok.u1.sig''))
     = Some ''User account is deactivated''
   \<and> http_status (me_route prod_env (table_verify issued) 1000 [alice\<lparr>isActive := False\<rparr>]
        (cookie_request ''tok.u1.sig'')) = 401"
proof -
  have acc: "fst (protect prod_env (table_verify issued) 1000 [alice]
      (cookie_request ''tok.u1.sig'')) = Inr alice"
    by (simp add: protect_def extract_token_def truthy_def cookie_request_def blank_request_def
          table_verify_def issued_def findById_def alice_def prod_env_def)
  have id: "user_id alice = ''u1''" by (simp add: alice_def)
  have hyps: "extract_token (cookie_request ''tok.u1.sig'') = Some ''tok.u1.sig''"
      "table_verify issued ''tok.u1.sig'' (JWT_SECRET prod_env) 1000
         = Inr \<lparr>payload_id = ''u1'', iat = 0, exp = 604800\<rparr>"
      "findById [alice\<lparr>isActive := False\<rparr>]
         (payload_id \<lparr>payload_id = ''u1'', iat = 0, exp = 604800\<rparr>)
         = Some (alice\<lparr>isActive := False\<rparr>)"
      "\<not> isActive (alice\<lparr>isActive := False\<rparr>)"
    by (simp_all add: extract_token_def truthy_def cookie_request_def blank_request_def
          table_verify_def issued_def findById_def alice_def)
  from deactivated_user_rejected_401
         [where req = "cookie_request ''tok.u1.sig''" and e = prod_env
            and verify = "table_verify issued" and now = 1000 and st = "[alice]" and u' = alice]
       acc id
  have second: "fst (protect prod_env (table_verify issued) 1000 (deactivate ''u1'' [alice])
        (cookie_request ''tok.u1.sig''))
     = Inl (AppError ''User account is deactivated'' 401)
   \<and> json_message (me_route prod_env (table_verify issued) 1000 (deactivate ''u1'' [alice])
        (cookie_request ''tok.u1.sig''))
     = Some ''User account is deactivated''"
    by simp
  from deactivated_user_rejected_401
         [where req = "cookie_request ''tok.u1.sig''" and e = prod_env
            and verify = "table_verify issued" and now = 1000
            and st = "[alice\<lparr>isActive := False\<rparr>]" and tok = "''tok.u1.sig''"
            and p = "\<lparr>payload_id = ''u1'', iat = 0, exp = 604800\<rparr>"
            and u = "alice\<lparr>isActive := False\<rparr>"]
       hyps
  have first: "http_status (me_route prod_env (table_verify issued) 1000
        [alice\<lparr>isActive := False\<rparr>] (cookie_request ''tok.u1.sig'')) = 401"
    by simp
  from acc second first show ?thesis by simp
qed

text \<open>
  The status is 401 where the claim has 403: alice's token is accepted, she is
  deactivated in the store, and the next request with the same token is answered
  with 401.
\<close>

theorem deactivated_user_not_403:
  "fst (protect prod_env (table_verify issued) 1000 [alice] (cookie_request ''tok.u1.sig''))
     = Inr alice
   \<and> http_status (me_route prod_env (table_verify issued) 1000 (deactivate ''u1'' [alice])
        (cookie_request ''tok.u1.sig'')) = 401
   \<and> http_status (me_route prod_env (table_verify issued) 1000 (deactivate ''u1'' [alice])
        (cookie_request ''tok.u1.sig'')) \<noteq> 403"
proof -
  have acc: "fst (protect prod_env (table_verify issued) 1000 [alice]
      (cookie_request ''tok.u1.sig'')) = Inr alice"
    by (simp add: protect_def extract_token_def truthy_def cookie_request_def blank_request_def
          table_verify_def issued_def findById_def alice_def prod_env_def)
  have "fst (protect prod_env (table_verify issued) 1000 (deactivate ''u1'' [alice])
      (cookie_request ''tok.u1.sig'')) = Inl (AppError ''User account is deactivated'' 401)"
    by (simp add: protect_def extract_token_def truthy_def cookie_request_def blank_request_def
          table_verify_def issued_def findById_def alice_def prod_env_def deactivate_def)
  from me_route_rejects(1)[OF this] acc show ?thesis by simp
qed

section \<open>Where the guard takes the token from\<close>

lemma split_no_separator: "c \<notin> set s \<Longrightarrow> split c s = [s]"
  by (induction s) auto

lemma split_Bearer:
  "CHR '' '' \<notin> set tok \<Longrightarrow> split CHR '' '' (''Bearer '' @ tok) = [''Bearer'', tok]"
  by (simp add: split_no_separator)

lemma extract_token_cookie:
  "truthy (cookies_token req) \<Longrightarrow> extract_token req = cookies_token req"
  by (simp add: extract_token_def)

lemma extract_token_header_irrelevant:
  "truthy (cookies_token req) \<Longrightarrow>
     extract_token (req\<lparr>authorization := h\<rparr>) = extract_token req"
  by (simp add: extract_token_def)

lemma protect_header_irrelevant:
  "truthy (cookies_token req) \<Longrightarrow>
     protect e verify now st (req\<lparr>authorization := h\<rparr>) = protect e verify now st req"
  by (simp add: protect_def extract_token_header_irrelevant)

lemma extract_token_Bearer:
  assumes "\<not> truthy (cookies_token req)" "authorization req = Some (''Bearer '' @ tok)"
    "CHR '' '' \<notin> set tok"
  shows "extract_token req = Some tok"
proof -
  have "startsWith (''Bearer '' @ tok) ''Bearer''" by (simp add: startsWith_def)
  moreover have "truthy (Some (''Bearer '' @ tok))" by (simp add: truthy_def)
  moreover have "at_index (split CHR '' '' (''Bearer '' @ tok)) 1 = Some tok"
    by (simp only: split_Bearer[OF assms(3)]) (simp add: at_index_def)
  ultimately show ?thesis using assms(1,2) by (simp add: extract_token_def)
qed

lemma extract_token_none:
  "\<not> truthy (cookies_token req) \<Longrightarrow>
   \<not> (truthy (authorization req) \<and> startsWith (the (authorization req)) ''Bearer'') \<Longrightarrow>
     extract_token req = None"
  by (auto simp: extract_token_def)

text \<open>
  What the guard does with the token it took from the request: the verifier is
  called on it first, its failure is the guard's error, and the request is
  accepted as a user exactly when the verifier returns a payload whose identifier
  resolves to that user and the user is active.
\<close>

lemma protect_on_token:
  assumes "extract_token req = Some tok" "tok \<noteq> []"
  shows "take 1 (snd (protect e verify now st req)) = [Verify_token tok]"
    and "(fst (protect e verify now st req) = Inr u) =
           (\<exists>p. verify tok (JWT_SECRET e) now = Inr p
                \<and> findById st (payload_id p) = Some u \<and> isActive u)"
    and "verify tok (JWT_SECRET e) now = Inl f \<Longrightarrow>
           protect e verify now st req = (Inl (jwt_error f), [Verify_token tok])"
proof -
  show "take 1 (snd (protect e verify now st req)) = [Verify_token tok]"
  proof (cases "verify tok (JWT_SECRET e) now")
    case (Inl f')
    from protect_verify_failed[where verify = verify, OF assms Inl] show ?thesis by simp
  next
    case (Inr p)
    from protect_verified[where verify = verify, OF assms Inr] show ?thesis by simp
  qed
  show "(fst (protect e verify now st req) = Inr u) =
           (\<exists>p. verify tok (JWT_SECRET e) now = Inr p
                \<and> findById st (payload_id p) = Some u \<and> isActive u)"
    unfolding protect_accepts_iff using assms by auto
  show "verify tok (JWT_SECRET e) now = Inl f \<Longrightarrow>
           protect e verify now st req = (Inl (jwt_error f), [Verify_token tok])"
    by (rule protect_verify_failed[where verify = verify, OF assms])
qed

text \<open>
  Claim C5. A request with a token in the cookie (a non-empty value; an empty
  cookie value is falsy and counts as no cookie) is judged on that token: it is
  the token the guard takes, and the guard's result does not change with the
  \<^verbatim>\<open>Authorization\<close> header, so the cookie wins when both are there, and the
  header can only matter when the cookie holds no token. Without a cookie token, a
  header \<^verbatim>\<open>Bearer <token>\<close> supplies the token. The guard then runs on the token
  it took: the first thing it does is to call the verifier on that token, a
  failure of the verifier is its error, and it accepts the request as a user
  exactly when the verifier returns a payload whose identifier resolves to that
  user and the user is active. With neither a cookie token nor a header starting
  with \<^verbatim>\<open>Bearer\<close>, the guard rejects with 401 \<^verbatim>\<open>You are not logged in\<close>, and
  neither the verifier nor the store is called.
\<close>

theorem token_from_cookie_first_then_bearer:
  "(truthy (cookies_token req) \<longrightarrow>
      extract_token req = cookies_token req
      \<and> protect e verify now st (req\<lparr>authorization := h\<rparr>) = protect e verify now st req)
   \<and> (extract_token (req\<lparr>authorization := h\<rparr>) \<noteq> extract_token req \<longrightarrow>
        \<not> truthy (cookies_token req))
   \<and> (\<not> truthy (cookies_token req) \<and> authorization req = Some (''Bearer '' @ tok)
        \<and> CHR '' '' \<notin> set tok \<longrightarrow> extract_token req = Some tok)
   \<and> (\<not> truthy (cookies_token req)
        \<and> \<not> (truthy (authorization req) \<and> startsWith (the (authorization req)) ''Bearer'') \<longrightarrow>
        protect e verify now st req = (Inl (AppError ''You are not logged in'' 401), [])
        \<and> http_status (me_route e verify now st req) = 401
        \<and> json_message (me_route e verify now st req) = Some ''You are not logged in'')
   \<and> (extract_token req = Some tok' \<and> tok' \<noteq> [] \<longrightarrow>
        take 1 (snd (protect e verify now st req)) = [Verify_token tok']
        \<and> (\<forall>u. (fst (protect e verify now st req) = Inr u) =
                 (\<exists>p. verify tok' (JWT_SECRET e) now = Inr p
                      \<and> findById st (payload_id p) = Some u \<and> isActive u))
        \<and> (\<forall>f. verify tok' (JWT_SECRET e) now = Inl f \<longrightarrow>
                 protect e verify now st req = (Inl (jwt_error f), [Verify_token tok'])))"
proof -
  have a: "truthy (cookies_token req) \<longrightarrow>
      extract_token req = cookies_token req
      \<and> protect e verify now st (req\<lparr>authorization := h\<rparr>) = protect e verify now st req"
    by (simp add: extract_token_cookie protect_header_irrelevant)
  have b: "extract_token (req\<lparr>authorization := h\<rparr>) \<noteq> extract_token req \<longrightarrow>
        \<not> truthy (cookies_token req)"
    using extract_token_header_irrelevant by blast
  have c: "\<not> truthy (cookies_token req) \<and> authorization req = Some (''Bearer '' @ tok)
        \<and> CHR '' '' \<notin> set tok \<longrightarrow> extract_token req = Some tok"
    using extract_token_Bearer by blast
  have d: "\<not> truthy (cookies_token req)
        \<and> \<not> (truthy (authorization req) \<and> startsWith (the (authorization req)) ''Bearer'') \<longrightarrow>
        protect e verify now st req = (Inl (AppError ''You are not logged in'' 401), [])
        \<and> http_status (me_route e verify now st req) = 401
        \<and> json_message (me_route e verify now st req) = Some ''You are not logged in''"
  proof
    assume n: "\<not> truthy (cookies_token req)
        \<and> \<not> (truthy (authorization req) \<and> startsWith (the (authorization req)) ''Bearer'')"
    have "extract_token req = None"
      by (rule extract_token_none[OF n[THEN conjunct1] n[THEN conjunct2]])
    then have "\<not> truthy (extract_token req)" by (simp add: truthy_def)
    from protect_no_token[OF this]
    have p: "protect e verify now st req = (Inl (AppError ''You are not logged in'' 401), [])" .
    then have "fst (protect e verify now st req) = Inl (AppError ''You are not logged in'' 401)"
      by simp
    from me_route_rejects[OF this] p
    show "protect e verify now st req = (Inl (AppError ''You are not logged in'' 401), [])
        \<and> http_status (me_route e verify now st req) = 401
        \<and> json_message (me_route e verify now st req) = Some ''You are not logged in''"
      by simp
  qed
  have g: "extract_token req = Some tok' \<and> tok' \<noteq> [] \<longrightarrow>
        take 1 (snd (protect e verify now st req)) = [Verify_token tok']
        \<and> (\<forall>u. (fst (protect e verify now st req) = Inr u) =
                 (\<exists>p. verify tok' (JWT_SECRET e) now = Inr p
                      \<and> findById st (payload_id p) = Some u \<and> isActive u))
        \<and> (\<forall>f. verify tok' (JWT_SECRET e) now = Inl f \<longrightarrow>
                 protect e verify now st req = (Inl (jwt_error f), [Verify_token tok']))"
  proof
    assume x: "extract_token req = Some tok' \<and> tok' \<noteq> []"
    note q = protect_on_token[where verify = verify, OF x[THEN conjunct1] x[THEN conjunct2]]
    have 1: "take 1 (snd (protect e verify now st req)) = [Verify_token tok']" by (rule q(1))
    have 2: "\<forall>u. (fst (protect e verify now st req) = Inr u) =
                 (\<exists>p. verify tok' (JWT_SECRET e) now = Inr p
                      \<and> findById st (payload_id p) = Some u \<and> isActive u)"
      by (rule allI) (rule q(2))
    have 3: "\<forall>f. verify tok' (JWT_SECRET e) now = Inl f \<longrightarrow>
                 protect e verify now st req = (Inl (jwt_error f), [Verify_token tok'])"
      by (intro allI impI) (rule q(3))
    show "take 1 (snd (protect e verify now st req)) = [Verify_token tok']
        \<and> (\<forall>u. (fst (protect e verify now st req) = Inr u) =
                 (\<exists>p. verify tok' (JWT_SECRET e) now = Inr p
                      \<and> findById st (payload_id p) = Some u \<and> isActive u))
        \<and> (\<forall>f. verify tok' (JWT_SECRET e) now = Inl f \<longrightarrow>
                 protect e verify now st req = (Inl (jwt_error f), [Verify_token tok']))"
      by (rule conjI[OF 1 conjI[OF 2 3]])
  qed
  show ?thesis by (rule conjI[OF a conjI[OF b conjI[OF c conjI[OF d g]]]])
qed

text \<open>
  Alice's token in the cookie beside another token in the header, her token in the
  header alone, a forged token in the header alone, and a request with neither.
\<close>

theorem token_from_cookie_first_then_bearer_witness:
  "extract_token (blank_request\<lparr>cookies_token := Some ''tok.u1.sig'',
       authorization := Some ''Bearer other''\<rparr>) = Some ''tok.u1.sig''
   \<and> fst (protect prod_env (table_verify issued) 1000 [alice]
        (blank_request\<lparr>cookies_token := Some ''tok.u1.sig'',
           authorization := Some ''Bearer other''\<rparr>)) = Inr alice
   \<and> take 1 (snd (protect prod_env (table_verify issued) 1000 [alice]
        (blank_request\<lparr>cookies_token := Some ''tok.u1.sig'',
           authorization := Some ''Bearer other''\<rparr>))) = [Verify_token ''tok.u1.sig'']
   \<and> extract_token (blank_request\<lparr>authorization := Some ''Bearer tok.u1.sig''\<rparr>)
       = Some ''tok.u1.sig''
   \<and> fst (protect prod_env (table_verify issued) 1000 [alice]
        (blank_request\<lparr>authorization := Some ''Bearer tok.u1.sig''\<rparr>)) = Inr alice
   \<and> protect prod_env (table_verify issued) 1000 [alice]
        (blank_request\<lparr>authorization := Some ''Bearer other''\<rparr>)
       = (Inl (jwt_error (JsonWebTokenError ''invalid signature'')), [Verify_token ''other''])
   \<and> protect prod_env (table_verify issued) 1000 [alice] blank_request
       = (Inl (AppError ''You are not logged in'' 401), [])
   \<and> \<not> truthy (cookies_token blank_request)"
proof -
  let ?both = "blank_request\<lparr>cookies_token := Some ''tok.u1.sig'',
       authorization := Some ''Bearer other''\<rparr>"
  let ?bearer = "blank_request\<lparr>authorization := Some ''Bearer tok.u1.sig''\<rparr>"
  let ?forged = "blank_request\<lparr>authorization := Some ''Bearer other''\<rparr>"
  let ?p = "\<lparr>payload_id = ''u1'', iat = 0, exp = 604800\<rparr>"
  note T = token_from_cookie_first_then_bearer
  have c1: "truthy (cookies_token ?both)"
    by (simp add: truthy_def blank_request_def)
  have c1': "cookies_token ?both = Some ''tok.u1.sig''"
    by (simp add: blank_request_def)
  have c2: "\<not> truthy (cookies_token ?bearer) \<and> authorization ?bearer = Some (''Bearer '' @ ''tok.u1.sig'')
      \<and> CHR '' '' \<notin> set ''tok.u1.sig''"
    by (simp add: truthy_def blank_request_def)
  have c2': "\<not> truthy (cookies_token ?forged) \<and> authorization ?forged = Some (''Bearer '' @ ''other'')
      \<and> CHR '' '' \<notin> set ''other''"
    by (simp add: truthy_def blank_request_def)
  have c3: "\<not> truthy (cookies_token blank_request)
      \<and> \<not> (truthy (authorization blank_request)
          \<and> startsWith (the (authorization blank_request)) ''Bearer'')"
    by (simp add: truthy_def blank_request_def)
  have ok: "\<exists>p. table_verify issued ''tok.u1.sig'' (JWT_SECRET prod_env) 1000 = Inr p
      \<and> findById [alice] (payload_id p) = Some alice \<and> isActive alice"
    by (rule exI[of _ ?p]) (simp add: table_verify_def issued_def findById_def alice_def)
  have bad: "table_verify issued ''other'' (JWT_SECRET prod_env) 1000
      = Inl (JsonWebTokenError ''invalid signature'')"
    by (simp add: table_verify_def issued_def)
  have "extract_token ?both = cookies_token ?both"
    by (rule T[where req = ?both, THEN conjunct1, THEN mp, OF c1, THEN conjunct1])
  then have w1: "extract_token ?both = Some ''tok.u1.sig''"
    by (simp only: c1')
  have ne: "''tok.u1.sig'' \<noteq> []" "''other'' \<noteq> []" by simp_all
  note g1 = T[where req = ?both and tok' = "''tok.u1.sig''" and e = prod_env
      and verify = "table_verify issued" and now = 1000 and st = "[alice]",
      THEN conjunct2, THEN conjunct2, THEN conjunct2, THEN conjunct2, THEN mp,
      OF conjI[OF w1 ne(1)]]
  have w1a: "fst (protect prod_env (table_verify issued) 1000 [alice] ?both) = Inr alice"
    by (rule g1[THEN conjunct2, THEN conjunct1, THEN spec, THEN iffD2, OF ok])
  have w1b: "take 1 (snd (protect prod_env (table_verify issued) 1000 [alice] ?both))
      = [Verify_token ''tok.u1.sig'']"
    by (rule g1[THEN conjunct1])
  have w2: "extract_token ?bearer = Some ''tok.u1.sig''"
    by (rule T[where req = ?bearer and tok = "''tok.u1.sig''",
          THEN conjunct2, THEN conjunct2, THEN conjunct1, THEN mp, OF c2])
  note g2 = T[where req = ?bearer and tok' = "''tok.u1.sig''" and e = prod_env
      and verify = "table_verify issued" and now = 1000 and st = "[alice]",
      THEN conjunct2, THEN conjunct2, THEN conjunct2, THEN conjunct2, THEN mp,
      OF conjI[OF w2 ne(1)]]
  have w2a: "fst (protect prod_env (table_verify issued) 1000 [alice] ?bearer) = Inr alice"
    by (rule g2[THEN conjunct2, THEN conjunct1, THEN spec, THEN iffD2, OF ok])
  have x3: "extract_token ?forged = Some ''other''"
    by (rule T[where req = ?forged and tok = "''other''",
          THEN conjunct2, THEN conjunct2, THEN conjunct1, THEN mp, OF c2'])
  note g3 = T[where req = ?forged and tok' = "''other''" and e = prod_env
      and verify = "table_verify issued" and now = 1000 and st = "[alice]",
      THEN conjunct2, THEN conjunct2, THEN conjunct2, THEN conjunct2, THEN mp,
      OF conjI[OF x3 ne(2)]]
  have w2b: "protect prod_env (table_verify issued) 1000 [alice] ?forged
       = (Inl (jwt_error (JsonWebTokenError ''invalid signature'')), [Verify_token ''other''])"
    by (rule g3[THEN conjunct2, THEN conjunct2, THEN spec, THEN mp, OF bad])
  have w3: "protect prod_env (table_verify issued) 1000 [alice] blank_request
       = (Inl (AppError ''You are not logged in'' 401), [])"
    by (rule T[where req = blank_request and e = prod_env and verify = "table_verify issued"
            and now = 1000 and st = "[alice]",
          THEN conjunct2, THEN conjunct2, THEN conjunct2, THEN conjunct1, THEN mp, OF c3,
          THEN conjunct1])
  have c4: "extract_token (blank_request\<lparr>authorization := Some ''Bearer tok.u1.sig''\<rparr>)
      \<noteq> extract_token blank_request"
    by (simp add: extract_token_def truthy_def blank_request_def startsWith_def at_index_def)
  have w4: "\<not> truthy (cookies_token blank_request)"
    by (rule T[where req = blank_request and h = "Some ''Bearer tok.u1.sig''",
          THEN conjunct2, THEN conjunct1, THEN mp, OF c4])
  show ?thesis
    by (rule conjI[OF w1 conjI[OF w1a conjI[OF w1b conjI[OF w2 conjI[OF w2a
          conjI[OF w2b conjI[OF w3 w4]]]]]]])
qed

text \<open>
  Claim C9. Without a token in the cookie, an \<^verbatim>\<open>Authorization\<close> header whose value
  does not start with \<^verbatim>\<open>Bearer\<close> is no credential: the guard rejects with 401
  \<^verbatim>\<open>You are not logged in\<close>, its trace is empty (no call of the verifier, no read
  of the store), and the outcome is the same for every verifier and every store.
\<close>

theorem non_bearer_header_is_no_credential:
  "\<not> truthy (cookies_token req) \<Longrightarrow> authorization req = Some hv \<Longrightarrow> \<not> startsWith hv ''Bearer'' \<Longrightarrow>
     protect e verify now st req = (Inl (AppError ''You are not logged in'' 401), [])
     \<and> protect e verify' now' st' req = protect e verify now st req
     \<and> http_status (me_route e verify now st req) = 401
     \<and> json_status (me_route e verify now st req) = ''fail''
     \<and> json_message (me_route e verify now st req) = Some ''You are not logged in''"
proof -
  assume n: "\<not> truthy (cookies_token req)" "authorization req = Some hv"
    "\<not> startsWith hv ''Bearer''"
  then have "extract_token req = None" by (simp add: extract_token_def)
  then have nt: "\<not> truthy (extract_token req)" by (simp add: truthy_def)
  have p: "protect e verify now st req = (Inl (AppError ''You are not logged in'' 401), [])"
    by (rule protect_no_token[OF nt])
  have p': "protect e verify' now' st' req = (Inl (AppError ''You are not logged in'' 401), [])"
    by (rule protect_no_token[OF nt])
  from p have "fst (protect e verify now st req) = Inl (AppError ''You are not logged in'' 401)"
    by simp
  from me_route_rejects[OF this] p p' show ?thesis by simp
qed

theorem non_bearer_header_is_no_credential_witness:
  "protect prod_env (table_verify issued) 1000 [alice]
      (blank_request\<lparr>authorization := Some ''Basic tok.u1.sig''\<rparr>)
     = (Inl (AppError ''You are not logged in'' 401), [])
   \<and> http_status (me_route prod_env (table_verify issued) 1000 [alice]
        (blank_request\<lparr>authorization := Some ''Basic tok.u1.sig''\<rparr>)) = 401"
proof -
  let ?req = "blank_request\<lparr>authorization := Some ''Basic tok.u1.sig''\<rparr>"
  have h: "\<not> truthy (cookies_token ?req)" "authorization ?req = Some ''Basic tok.u1.sig''"
      "\<not> startsWith ''Basic tok.u1.sig'' ''Bearer''"
    by (simp_all add: truthy_def blank_request_def startsWith_def)
  note t = non_bearer_header_is_no_credential[OF h, where e = prod_env
      and verify = "table_verify issued" and now = 1000 and st = "[alice]"
      and verify' = "table_verify []" and now' = 0 and st' = "[]"]
  from t[THEN conjunct1] t[THEN conjunct2, THEN conjunct2, THEN conjunct1]
  show ?thesis by (rule conjI)
qed

section \<open>A token that fails verification\<close>

lemma starts_with_4 [simp]:
  "startsWith (toString 400) ''4''" "startsWith (toString 401) ''4''"
  using status_4xx[of 400] status_4xx[of 401] by simp_all

lemma name_jwt_error:
  "name (jwt_error f) =
     (case f of JsonWebTokenError m \<Rightarrow> ''JsonWebTokenError'' | TokenExpiredError \<Rightarrow> ''TokenExpiredError'')"
  by (cases f) (simp_all add: Error_def)








section \<open>Logout\<close>



section \<open>The origin guard\<close>

text \<open>
  In production the guard rejects a state-changing request whose \<^verbatim>\<open>Origin\<close> header
  is there and differs from the allowed origin, and one whose \<^verbatim>\<open>Referer\<close> header
  is there and does not start with it; the methods GET, HEAD and OPTIONS pass
  unchecked.
\<close>

lemma csrfProtection_rejects_mismatch:
  assumes "NODE_ENV e = Some ''production''" "req_method req \<notin> {''GET'', ''HEAD'', ''OPTIONS''}"
    "CORS_ORIGIN e = Some allowed"
  shows "origin req = Some o' \<Longrightarrow> o' \<noteq> [] \<Longrightarrow> o' \<noteq> allowed \<Longrightarrow>
           csrfProtection e req = Send csrf_failed"
    and "referer req = Some r \<Longrightarrow> r \<noteq> [] \<Longrightarrow> \<not> startsWith r allowed \<Longrightarrow>
           csrfProtection e req = Send csrf_failed"
  using assms by (simp_all add: csrfProtection_def truthy_def)

lemma csrfProtection_read_only:
  "req_method req \<in> {''GET'', ''HEAD'', ''OPTIONS''} \<Longrightarrow> csrfProtection e req = Next"
  by (simp add: csrfProtection_def)

text \<open>
  Claim C3, where the code departs from it. A request that carries neither an
  \<^verbatim>\<open>Origin\<close> nor a \<^verbatim>\<open>Referer\<close> header (or carries them empty) passes the guard, in
  production and for a state-changing method as well: both tests are guarded by
  the presence of their header, and nothing rejects when both are absent.
\<close>

theorem csrfProtection_passes_without_headers:
  "\<not> truthy (origin req) \<Longrightarrow> \<not> truthy (referer req) \<Longrightarrow> csrfProtection e req = Next"
  by (simp add: csrfProtection_def)

theorem csrfProtection_passes_without_headers_witness:
  "NODE_ENV prod_env = Some ''production''
   \<and> csrfProtection prod_env (blank_request\<lparr>req_method := ''POST''\<rparr>) = Next"
proof -
  have h: "\<not> truthy (origin (blank_request\<lparr>req_method := ''POST''\<rparr>))"
      "\<not> truthy (referer (blank_request\<lparr>req_method := ''POST''\<rparr>))"
    by (simp_all add: truthy_def blank_request_def)
  have p: "NODE_ENV prod_env = Some ''production''" by (simp add: prod_env_def)
  from p csrfProtection_passes_without_headers[OF h, of prod_env] show ?thesis by (rule conjI)
qed

section \<open>Login failures\<close>

text \<open>
  Claim C4. A login with an email that matches no user and a login with a stored
  email and a password that fails the comparison throw the same error,
  \<^verbatim>\<open>Incorrect email or password\<close> with 401, whatever the two requests and stores
  are; so the two responses are equal as a whole, in every mode, with the status
  401 and that message.
\<close>

theorem login_failures_indistinguishable:
  "findOne_email st (body_email req) = None \<Longrightarrow>
   findOne_email st' (body_email req') = Some u \<Longrightarrow>
   \<not> compare (body_password req') (password u) \<Longrightarrow>
     login compare rest st req = Inl (AppError ''Incorrect email or password'' 401)
     \<and> login compare rest st' req' = login compare rest st req
     \<and> respond e (login compare rest st' req') = respond e (login compare rest st req)
     \<and> http_status (respond e (login compare rest st req)) = 401
     \<and> json_status (respond e (login compare rest st req)) = ''fail''
     \<and> json_message (respond e (login compare rest st req))
         = Some ''Incorrect email or password''"
proof -
  assume a: "findOne_email st (body_email req) = None"
    and b: "findOne_email st' (body_email req') = Some u"
    and c: "\<not> compare (body_password req') (password u)"
  have l1: "login compare rest st req = Inl (AppError ''Incorrect email or password'' 401)"
    using a by (simp add: login_def)
  have l2: "login compare rest st' req' = Inl (AppError ''Incorrect email or password'' 401)"
    using b c by (simp add: login_def)
  have r: "respond e (login compare rest st req)
      = errorHandler e (AppError ''Incorrect email or password'' 401)"
    by (simp add: l1 respond_def)
  have h: "http_status (respond e (login compare rest st req)) = 401"
      "json_status (respond e (login compare rest st req)) = ''fail''"
      "json_message (respond e (login compare rest st req))
         = Some ''Incorrect email or password''"
    unfolding r using errorHandler_AppError_4xx[of 401 e "''Incorrect email or password''"]
    by simp_all
  have l3: "login compare rest st' req' = login compare rest st req"
    by (simp only: l1 l2)
  have r2: "respond e (login compare rest st' req') = respond e (login compare rest st req)"
    by (simp only: l3)
  show ?thesis
    by (rule conjI[OF l1 conjI[OF l3 conjI[OF r2 conjI[OF h(1) conjI[OF h(2) h(3)]]]]])
qed

theorem login_failures_indistinguishable_witness:
  "respond prod_env (login example_compare example_rest [alice]
       (blank_request\<lparr>body_email := ''alice@example.com'', body_password := ''wrong''\<rparr>))
     = respond prod_env (login example_compare example_rest [alice]
       (blank_request\<lparr>body_email := ''nobody@example.com'', body_password := ''wrong''\<rparr>))
   \<and> http_status (respond prod_env (login example_compare example_rest [alice]
       (blank_request\<lparr>body_email := ''nobody@example.com'', body_password := ''wrong''\<rparr>))) = 401"
proof -
  let ?unknown = "blank_request\<lparr>body_email := ''nobody@example.com'', body_password := ''wrong''\<rparr>"
  let ?wrong = "blank_request\<lparr>body_email := ''alice@example.com'', body_password := ''wrong''\<rparr>"
  have a: "findOne_email [alice] (body_email ?unknown) = None"
    by (simp add: findOne_email_def alice_def blank_request_def)
  have b: "findOne_email [alice] (body_email ?wrong) = Some alice"
    by (simp add: findOne_email_def alice_def blank_request_def)
  have c: "\<not> example_compare (body_password ?wrong) (password alice)"
    by (simp add: example_compare_def blank_request_def)
  note t = login_failures_indistinguishable[where compare = example_compare
      and rest = example_rest and e = prod_env, OF a b c]
  from t[THEN conjunct2, THEN conjunct2, THEN conjunct1]
       t[THEN conjunct2, THEN conjunct2, THEN conjunct2, THEN conjunct1]
  show ?thesis by (rule conjI)
qed

section \<open>Registering a name or an email that is taken\<close>

lemma User_create_duplicate:
  "body_username req \<in> set (map username st) \<or> body_email req \<in> set (map email st) \<Longrightarrow>
     User_create hash new_id st req =
       Inl (if body_username req \<in> set (map username st)
            then duplicate_key ''username'' (body_username req)
            else duplicate_key ''email'' (body_email req))"
  by (auto simp: User_create_def)

lemma set_defaults_duplicate_key:
  "set_defaults (duplicate_key field v) =
     (duplicate_key field v)\<lparr>statusCode := Some 500, status := Some ''error''\<rparr>"
  by (simp add: set_defaults_def duplicate_key_def Error_def truthy_num_def truthy_def)

lemma translate_duplicate_key:
  "translate ((duplicate_key field v)\<lparr>statusCode := Some 500, status := Some ''error''\<rparr>) =
     AppError (''Duplicate field value: '' @ field @ '' = '' @ [CHR 0x22] @ v @ [CHR 0x22]
               @ ''. Please use another value'') 400"
  by (simp add: translate_def duplicate_key_def Error_def handleDuplicateFieldsDB_def at_index_def)

text \<open>
  The duplicate-key error of the store is answered with 400 outside development
  mode, and as it is, with the default status 500, in development mode.
\<close>

lemma errorHandler_duplicate_key:
  assumes "NODE_ENV e \<noteq> Some ''development''"
  shows "http_status (errorHandler e (duplicate_key field v)) = 400
    \<and> json_status (errorHandler e (duplicate_key field v)) = ''fail''
    \<and> json_message (errorHandler e (duplicate_key field v)) =
         Some (''Duplicate field value: '' @ field @ '' = '' @ [CHR 0x22] @ v @ [CHR 0x22]
               @ ''. Please use another value'')"
proof -
  have "errorHandler e (duplicate_key field v) =
      sendErrorProd (AppError (''Duplicate field value: '' @ field @ '' = '' @ [CHR 0x22] @ v
        @ [CHR 0x22] @ ''. Please use another value'') 400)"
    using assms
    by (simp only: errorHandler_def Let_def set_defaults_duplicate_key translate_duplicate_key
          if_False)
  then show ?thesis by (simp add: sendErrorProd_def json_def)
qed

lemma errorHandler_duplicate_key_dev:
  "NODE_ENV e = Some ''development'' \<Longrightarrow>
     http_status (errorHandler e (duplicate_key field v)) = 500"
  by (simp only: errorHandler_def Let_def set_defaults_duplicate_key if_True sendErrorDev_def)
     (simp add: json_def)

lemma errorHandler_sets_no_cookie:
  "set_cookie (errorHandler e err) = None \<and> json_token (errorHandler e err) = None"
  by (simp add: errorHandler_def sendErrorDev_def sendErrorProd_def json_def Let_def)

text \<open>
  Claim C2, as the code has it. A registration whose username or email is already
  in the store leaves the store exactly as it was (nothing is added, no record is
  changed) and sets no cookie and no token. The store's duplicate-key error is
  answered with status 400 (not 409), the status text \<^verbatim>\<open>fail\<close> and the message
  naming the field and value, whenever the server is not in development mode; in
  development mode the store's error is returned with status 500.
\<close>

theorem duplicate_registration_rejected_400:
  "body_username req \<in> set (map username st) \<or> body_email req \<in> set (map email st) \<Longrightarrow>
     snd (register hash new_id encode e t1 t2 st req) = st
     \<and> set_cookie (fst (register hash new_id encode e t1 t2 st req)) = None
     \<and> json_token (fst (register hash new_id encode e t1 t2 st req)) = None
     \<and> (NODE_ENV e \<noteq> Some ''development'' \<longrightarrow>
          http_status (fst (register hash new_id encode e t1 t2 st req)) = 400
          \<and> json_status (fst (register hash new_id encode e t1 t2 st req)) = ''fail''
          \<and> json_message (fst (register hash new_id encode e t1 t2 st req)) =
              Some (if body_username req \<in> set (map username st)
                    then ''Duplicate field value: username = '' @ [CHR 0x22] @ body_username req
                         @ [CHR 0x22] @ ''. Please use another value''
                    else ''Duplicate field value: email = '' @ [CHR 0x22] @ body_email req
                         @ [CHR 0x22] @ ''. Please use another value''))
     \<and> (NODE_ENV e = Some ''development'' \<longrightarrow>
          http_status (fst (register hash new_id encode e t1 t2 st req)) = 500)"
proof -
  assume dup: "body_username req \<in> set (map username st) \<or> body_email req \<in> set (map email st)"
  define field where
    "field = (if body_username req \<in> set (map username st) then ''username'' else ''email'')"
  define v where
    "v = (if body_username req \<in> set (map username st) then body_username req
          else body_email req)"
  have c: "User_create hash new_id st req = Inl (duplicate_key field v)"
    unfolding field_def v_def using User_create_duplicate[OF dup] by simp
  have r: "register hash new_id encode e t1 t2 st req = (errorHandler e (duplicate_key field v), st)"
    by (simp add: register_def c)
  have s: "snd (register hash new_id encode e t1 t2 st req) = st"
    by (simp add: r)
  have k: "set_cookie (fst (register hash new_id encode e t1 t2 st req)) = None"
      "json_token (fst (register hash new_id encode e t1 t2 st req)) = None"
    using errorHandler_sets_no_cookie[of e "duplicate_key field v"] by (simp_all add: r)
  have p: "NODE_ENV e \<noteq> Some ''development'' \<longrightarrow>
          http_status (fst (register hash new_id encode e t1 t2 st req)) = 400
          \<and> json_status (fst (register hash new_id encode e t1 t2 st req)) = ''fail''
          \<and> json_message (fst (register hash new_id encode e t1 t2 st req)) =
              Some (if body_username req \<in> set (map username st)
                    then ''Duplicate field value: username = '' @ [CHR 0x22] @ body_username req
                         @ [CHR 0x22] @ ''. Please use another value''
                    else ''Duplicate field value: email = '' @ [CHR 0x22] @ body_email req
                         @ [CHR 0x22] @ ''. Please use another value'')"
  proof
    assume n: "NODE_ENV e \<noteq> Some ''development''"
    from errorHandler_duplicate_key[OF n, of field v]
    show "http_status (fst (register hash new_id encode e t1 t2 st req)) = 400
          \<and> json_status (fst (register hash new_id encode e t1 t2 st req)) = ''fail''
          \<and> json_message (fst (register hash new_id encode e t1 t2 st req)) =
              Some (if body_username req \<in> set (map username st)
                    then ''Duplicate field value: username = '' @ [CHR 0x22] @ body_username req
                         @ [CHR 0x22] @ ''. Please use another value''
                    else ''Duplicate field value: email = '' @ [CHR 0x22] @ body_email req
                         @ [CHR 0x22] @ ''. Please use another value'')"
      by (simp add: r field_def v_def)
  qed
  have d: "NODE_ENV e = Some ''development'' \<longrightarrow>
          http_status (fst (register hash new_id encode e t1 t2 st req)) = 500"
    using errorHandler_duplicate_key_dev[of e field v] by (simp add: r)
  show ?thesis by (rule conjI[OF s conjI[OF k(1) conjI[OF k(2) conjI[OF p d]]]])
qed

theorem duplicate_registration_rejected_400_witness:
  "snd (register (\<lambda>pw. ''$2a$12$other'') ''u2'' (\<lambda>p s. ''tok.u2.sig'') prod_env 1000 1000 [alice]
       (blank_request\<lparr>body_username := ''bob'', body_email := ''alice@example.com'',
          body_password := ''Secur3Pass!''\<rparr>)) = [alice]
   \<and> json_status (fst (register (\<lambda>pw. ''$2a$12$other'') ''u2'' (\<lambda>p s. ''tok.u2.sig'') prod_env
       1000 1000 [alice]
       (blank_request\<lparr>body_username := ''bob'', body_email := ''alice@example.com'',
          body_password := ''Secur3Pass!''\<rparr>))) = ''fail''"
proof -
  let ?req = "blank_request\<lparr>body_username := ''bob'', body_email := ''alice@example.com'',
          body_password := ''Secur3Pass!''\<rparr>"
  have dup: "body_username ?req \<in> set (map username [alice])
      \<or> body_email ?req \<in> set (map email [alice])"
    by (simp add: blank_request_def alice_def)
  have n: "NODE_ENV prod_env \<noteq> Some ''development''" by (simp add: prod_env_def)
  note t = duplicate_registration_rejected_400[where hash = "\<lambda>pw. ''$2a$12$other''"
      and new_id = "''u2''" and encode = "\<lambda>p s. ''tok.u2.sig''" and e = prod_env
      and ?t1.0 = 1000 and ?t2.0 = 1000, OF dup]
  from t[THEN conjunct1]
       t[THEN conjunct2, THEN conjunct2, THEN conjunct2, THEN conjunct1, THEN mp, OF n,
         THEN conjunct2, THEN conjunct1]
  show ?thesis by (rule conjI)
qed

text \<open>
  Bob registers with alice's email in production: the answer has status 400, not
  409, and the store still holds alice alone.
\<close>

theorem duplicate_registration_not_409:
  "http_status (fst (register (\<lambda>pw. ''$2a$12$other'') ''u2'' (\<lambda>p s. ''tok.u2.sig'') prod_env
       1000 1000 [alice]
       (blank_request\<lparr>body_username := ''bob'', body_email := ''alice@example.com'',
          body_password := ''Secur3Pass!''\<rparr>))) = 400
   \<and> http_status (fst (register (\<lambda>pw. ''$2a$12$other'') ''u2'' (\<lambda>p s. ''tok.u2.sig'') prod_env
       1000 1000 [alice]
       (blank_request\<lparr>body_username := ''bob'', body_email := ''alice@example.com'',
          body_password := ''Secur3Pass!''\<rparr>))) \<noteq> 409
   \<and> snd (register (\<lambda>pw. ''$2a$12$other'') ''u2'' (\<lambda>p s. ''tok.u2.sig'') prod_env 1000 1000 [alice]
       (blank_request\<lparr>body_username := ''bob'', body_email := ''alice@example.com'',
          body_password := ''Secur3Pass!''\<rparr>)) = [alice]"
proof -
  let ?req = "blank_request\<lparr>body_username := ''bob'', body_email := ''alice@example.com'',
          body_password := ''Secur3Pass!''\<rparr>"
  have c: "User_create (\<lambda>pw. ''$2a$12$other'') ''u2'' [alice] ?req
      = Inl (duplicate_key ''email'' ''alice@example.com'')"
    by (simp add: User_create_def blank_request_def alice_def)
  have r: "register (\<lambda>pw. ''$2a$12$other'') ''u2'' (\<lambda>p s. ''tok.u2.sig'') prod_env 1000 1000
      [alice] ?req = (errorHandler prod_env (duplicate_key ''email'' ''alice@example.com''), [alice])"
    by (simp only: register_def c sum.case)
  have n: "NODE_ENV prod_env \<noteq> Some ''development''" by (simp add: prod_env_def)
  from errorHandler_duplicate_key[OF n, of "''email''" "''alice@example.com''"]
  show ?thesis by (simp only: r fst_conv snd_conv) simp
qed

section \<open>Cookie lifetime and token lifetime\<close>










end
